theory Spec2Isabelle
  imports Main "HOL-Library.Sublist" "HOL-Library.AList"
begin

section \<open>Strings and errors\<close>

text \<open>
  The program is Python 2 style code working on byte strings, so a string is a
  \<^typ>\<open>string\<close> (a list of 8-bit characters).  Python's substring test
  \<^verbatim>\<open>sub in s\<close> is \<^const>\<open>sublist\<close> and \<^verbatim>\<open>s.startswith(p)\<close> is
  \<^const>\<open>prefix\<close>; both are executable.
\<close>

datatype error = KeyError | IndexError | TypeError | NameError | AttributeError | ValueError | OSError

abbreviation NL :: string where "NL \<equiv> [CHR 0x0A]"


section \<open>The command runner (\<open>execute_command\<close>)\<close>

text \<open>
  \<open>execute_command\<close> splits the command string with \<open>shlex.split\<close> and spawns the
  program with \<open>Popen\<close>.  Both belong to the environment and are parameters of the model:
  \<open>shlex_split\<close> may raise (unbalanced quotes), \<open>popen\<close> may raise (no such program) or
  return the exit code with the collected stdout and stderr.  The list \<open>spawned\<close> records
  every argument vector handed to \<open>Popen\<close>; the debug printing is not modelled.
  The argument \<open>commandString\<close> is \<open>None\<close> (the default) or a string.
\<close>

type_synonym cmd_result = "int \<times> string option \<times> string option"

definition execute_command ::
  "(string \<Rightarrow> error + string list) \<Rightarrow> (string list \<Rightarrow> error + int \<times> string \<times> string) \<Rightarrow>
   string option \<Rightarrow> string list list \<Rightarrow> (error + cmd_result) \<times> string list list" where
  "execute_command shlex_split popen commandString spawned =
    (case commandString of
       None \<Rightarrow> (Inr (99999999, None, None), spawned)
     | Some s \<Rightarrow>
        if s = [] then (Inr (99999999, None, None), spawned)
        else (case shlex_split s of
                Inl e \<Rightarrow> (Inl e, spawned)
              | Inr shellCommand \<Rightarrow>
                 (case popen shellCommand of
                    Inl e \<Rightarrow> (Inl e, spawned)
                  | Inr (returncode, outdata, errdata) \<Rightarrow>
                     (Inr (returncode, Some outdata, Some errdata), spawned @ [shellCommand]))))"


section \<open>Update-or-append of a group entry (\<open>gac_update_acl\<close>)\<close>

text \<open>
  \<open>gac_update_acl\<close> and \<open>gac_update_default_acl\<close> first let the vendor getter write the
  current ACL into a temporary file.  The definitions below model what follows, on the text
  \<open>inputLine\<close> that \<open>f.read()\<close> returns for that file: the five containment flags (of
  which \<open>foundGroup\<close> and \<open>foundOther\<close> are never used), the backfill of the standard
  entries, and the append of the group line.  The result is the
  text of the file afterwards and whether the function goes on to invoke the vendor setter
  (it does so only inside the \<open>found == False\<close> branch).

  In \<open>gac_update_acl\<close> the flag \<open>found\<close> is tested a second time against a second
  \<open>f.read()\<close>, which returns the empty string because the file has been read to its end.
\<close>

definition backfill :: string where
  "backfill = ''user::rwxc'' @ NL @ ''group::r-x-'' @ NL @ ''other::----'' @ NL @ ''mask::r-x-'' @ NL"

definition gac_update_acl :: "string \<Rightarrow> string \<Rightarrow> string \<Rightarrow> string \<times> bool" where
  "gac_update_acl inputLine aclGroup aclPerms =
    (let found = sublist aclGroup inputLine;
         foundUser = sublist ''user::'' inputLine;
         foundGroup = sublist ''group::'' inputLine;
         foundOther = sublist ''other::'' inputLine;
         foundMask = sublist ''mask::'' inputLine;
         found = (found \<or> sublist aclGroup []);
         (file1, foundMask) =
            (if \<not> foundUser then (inputLine @ backfill, True) else (inputLine, foundMask))
     in if \<not> found
        then (file1 @ (if \<not> foundMask then ''mask::r-x-'' @ NL else [])
                    @ ''group:'' @ aclGroup @ '':'' @ aclPerms @ NL, True)
        else (file1, False))"

definition gac_update_default_acl :: "string \<Rightarrow> string \<Rightarrow> string \<Rightarrow> string \<times> bool" where
  "gac_update_default_acl inputLine aclGroup aclPerms =
    (let found = sublist aclGroup inputLine;
         foundUser = sublist ''user::'' inputLine;
         foundGroup = sublist ''group::'' inputLine;
         foundOther = sublist ''other::'' inputLine;
         foundMask = sublist ''mask::'' inputLine;
         (file1, foundMask) =
            (if \<not> foundUser then (inputLine @ backfill, True) else (inputLine, foundMask))
     in if \<not> found
        then (file1 @ (if \<not> foundMask then ''mask::r-x-'' @ NL else [])
                    @ ''group:'' @ aclGroup @ '':'' @ aclPerms @ NL, True)
        else (file1, False))"



section \<open>Python string primitives\<close>

text \<open>
  \<open>py_split sep s\<close> is \<^verbatim>\<open>s.split(sep)\<close> for a one-character separator: the fields between
  the separators, empty fields included, so the result is never empty.
\<close>

fun py_split :: "char \<Rightarrow> string \<Rightarrow> string list" where
  "py_split sep [] = [[]]"
| "py_split sep (c # cs) =
     (if c = sep then [] # py_split sep cs
      else (case py_split sep cs of [] \<Rightarrow> [[c]] | w # ws \<Rightarrow> (c # w) # ws))"

text \<open>
  \<open>splitlines s\<close> is \<^verbatim>\<open>s.splitlines()\<close> on a byte string: the line boundaries are
  \<open>\n\<close>, \<open>\r\<close> and \<open>\r\n\<close>, the boundaries are dropped, and a final boundary opens no
  further (empty) line.
\<close>

fun splitlines :: "string \<Rightarrow> string list" where
  "splitlines [] = []"
| "splitlines (c # cs) =
     (if c = CHR 0x0A then [] # splitlines cs
      else if c = CHR 0x0D then
        (case cs of
           [] \<Rightarrow> [[]]
         | d # ds \<Rightarrow> if d = CHR 0x0A then [] # splitlines ds else [] # splitlines cs)
      else (case splitlines cs of [] \<Rightarrow> [[c]] | l # ls \<Rightarrow> (c # l) # ls))"

text \<open>List indexing \<^verbatim>\<open>xs[i]\<close> raises \<open>IndexError\<close> out of range.\<close>

definition py_index :: "'a list \<Rightarrow> nat \<Rightarrow> error + 'a" where
  "py_index xs i = (if i < length xs then Inr (xs ! i) else Inl IndexError)"


section \<open>The ACL dictionary\<close>

text \<open>
  An ACL is a dictionary with the optional keys below (a key that is absent is \<open>None\<close>).
  \<open>USERS\<close> and \<open>GROUPS\<close> hold dictionaries from a name to an entry; they are association
  lists in insertion order, updated with \<^const>\<open>AList.update\<close> (an existing key keeps its
  place, a new key goes to the end) and \<^const>\<open>AList.delete\<close>.  Every place of the
  program that creates an entry stores its \<open>PERMS\<close> at once, so \<open>PERMS\<close> is a plain field;
  \<open>EFFECTIVE\<close> is stored by the parser only and is optional.
\<close>

record entry =
  PERMS :: string
  EFFECTIVE :: "string option"

type_synonym entries = "(string \<times> entry) list"

record acl =
  FQPN :: "string option"
  DIRNAME :: "string option"
  OWNER :: "string option"
  GROUP :: "string option"
  USERP :: "string option"
  GROUPP :: "string option"
  OTHERP :: "string option"
  MASK :: "string option"
  USERS :: "entries option"
  GROUPS :: "entries option"

definition empty_dict :: acl where
  "empty_dict = \<lparr>FQPN = None, DIRNAME = None, OWNER = None, GROUP = None, USERP = None,
     GROUPP = None, OTHERP = None, MASK = None, USERS = None, GROUPS = None\<rparr>"

text \<open>The truth value of an optional dictionary: \<open>None\<close> and the empty dictionary are false.\<close>

definition falsy :: "acl option \<Rightarrow> bool" where
  "falsy d = (d = None \<or> d = Some empty_dict)"

text \<open>
  The object of class \<open>mmacls\<close>.  An attribute that holds an ACL dictionary is in one of
  three states: never assigned (\<open>Unset\<close>; reading it raises \<open>AttributeError\<close>), Python's
  \<open>None\<close> (\<open>PyNone\<close>), or a dictionary.  The constructor assigns \<open>self.acls\<close> only through
  \<open>get_acl\<close>: when the path cannot be found it returns before, and \<open>self.acls\<close> stays
  unassigned; it never assigns \<open>self.default_acls\<close>.  No statement of the program assigns
  \<open>None\<close> to either attribute.  \<open>acls\<close> and \<open>default_acls\<close> are two separate dictionaries.
\<close>

datatype attr = Unset | PyNone | Dict acl

record mmacls =
  filename :: string
  dirname :: string
  acls :: attr
  default_acls :: attr


section \<open>The parser (\<open>get_acl\<close>, \<open>get_default_acl\<close>)\<close>

text \<open>
  The entry stored for a named user or group line: \<open>PERMS\<close> is \<open>line.split(':')[2][0:4]\<close>,
  \<open>EFFECTIVE\<close> is \<open>line.split(':')[3][1:5]\<close> when the line contains \<open>effective\<close> and
  \<open>????\<close> otherwise.  The source has this code four times.
\<close>

definition named_entry :: "string \<Rightarrow> error + entry" where
  "named_entry line =
    (case py_index (py_split CHR '':'' line) 2 of
       Inl e \<Rightarrow> Inl e
     | Inr f2 \<Rightarrow>
        if sublist ''effective'' line
        then (case py_index (py_split CHR '':'' line) 3 of
                Inl e \<Rightarrow> Inl e
              | Inr f3 \<Rightarrow> Inr \<lparr>PERMS = take 4 f2, EFFECTIVE = Some (take 4 (drop 1 f3))\<rparr>)
        else Inr \<lparr>PERMS = take 4 f2, EFFECTIVE = Some ''????''\<rparr>)"

text \<open>One round of the loop over the lines: the chain of \<open>if\<close>/\<open>elif\<close> of the source.\<close>

definition acl_line :: "acl \<Rightarrow> string \<Rightarrow> error + acl" where
  "acl_line mydict line =
    (if sublist ''#owner:'' line then
       (case py_index (py_split CHR '':'' line) 1 of
          Inl e \<Rightarrow> Inl e | Inr v \<Rightarrow> Inr (mydict\<lparr>OWNER := Some v\<rparr>))
     else if sublist ''#group:'' line then
       (case py_index (py_split CHR '':'' line) 1 of
          Inl e \<Rightarrow> Inl e | Inr v \<Rightarrow> Inr (mydict\<lparr>GROUP := Some v\<rparr>))
     else if prefix ''user:'' line then
       (case py_index (py_split CHR '':'' line) 1 of
          Inl e \<Rightarrow> Inl e
        | Inr user_name \<Rightarrow>
           if user_name = [] then
             (case py_index (py_split CHR '':'' line) 2 of
                Inl e \<Rightarrow> Inl e | Inr v \<Rightarrow> Inr (mydict\<lparr>USERP := Some v\<rparr>))
           else
             (case USERS mydict of
                None \<Rightarrow> Inl KeyError
              | Some us \<Rightarrow>
                 (case named_entry line of
                    Inl e \<Rightarrow> Inl e
                  | Inr ent \<Rightarrow> Inr (mydict\<lparr>USERS := Some (AList.update user_name ent us)\<rparr>))))
     else if prefix ''group:'' line then
       (case py_index (py_split CHR '':'' line) 1 of
          Inl e \<Rightarrow> Inl e
        | Inr group_name \<Rightarrow>
           if group_name = [] then
             (case py_index (py_split CHR '':'' line) 2 of
                Inl e \<Rightarrow> Inl e | Inr v \<Rightarrow> Inr (mydict\<lparr>GROUPP := Some v\<rparr>))
           else
             (case GROUPS mydict of
                None \<Rightarrow> Inl KeyError
              | Some gs \<Rightarrow>
                 (case named_entry line of
                    Inl e \<Rightarrow> Inl e
                  | Inr ent \<Rightarrow> Inr (mydict\<lparr>GROUPS := Some (AList.update group_name ent gs)\<rparr>))))
     else if sublist ''other::'' line then
       (case py_index (py_split CHR '':'' line) 2 of
          Inl e \<Rightarrow> Inl e | Inr v \<Rightarrow> Inr (mydict\<lparr>OTHERP := Some v\<rparr>))
     else if sublist ''mask::'' line then
       (case py_index (py_split CHR '':'' line) 2 of
          Inl e \<Rightarrow> Inl e | Inr v \<Rightarrow> Inr (mydict\<lparr>MASK := Some v\<rparr>))
     else Inr mydict)"

fun acl_lines :: "acl \<Rightarrow> string list \<Rightarrow> error + acl" where
  "acl_lines mydict [] = Inr mydict"
| "acl_lines mydict (line # rest) =
     (case acl_line mydict line of Inl e \<Rightarrow> Inl e | Inr d \<Rightarrow> acl_lines d rest)"

text \<open>
  \<open>get_acl\<close> runs the vendor getter; its result \<open>(rc, output, stderr)\<close> is an argument of
  the model.  On a nonzero exit code the source prints the undefined name \<open>stdout\<close>, which
  raises \<open>NameError\<close>.  Otherwise the parsed dictionary becomes \<open>self.acls\<close>
  (\<open>self.default_acls\<close> for \<open>get_default_acl\<close>, which stores no \<open>DIRNAME\<close>).
\<close>

definition get_acl :: "mmacls \<Rightarrow> int \<times> string \<times> string \<Rightarrow> error + mmacls" where
  "get_acl self res =
    (case res of (rc, output, stderr) \<Rightarrow>
      if rc \<noteq> 0 then Inl NameError
      else (case acl_lines (empty_dict\<lparr>GROUPS := Some [], USERS := Some [],
                              FQPN := Some (filename self), DIRNAME := Some (dirname self)\<rparr>)
                           (splitlines output) of
              Inl e \<Rightarrow> Inl e
            | Inr mydict \<Rightarrow> Inr (self\<lparr>acls := Dict mydict\<rparr>)))"

definition get_default_acl :: "mmacls \<Rightarrow> int \<times> string \<times> string \<Rightarrow> error + mmacls" where
  "get_default_acl self res =
    (case res of (rc, output, stderr) \<Rightarrow>
      if rc \<noteq> 0 then Inl NameError
      else (case acl_lines (empty_dict\<lparr>GROUPS := Some [], USERS := Some [],
                              FQPN := Some (dirname self)\<rparr>)
                           (splitlines output) of
              Inl e \<Rightarrow> Inl e
            | Inr mydict \<Rightarrow> Inr (self\<lparr>default_acls := Dict mydict\<rparr>)))"


section \<open>The mutators\<close>

text \<open>
  A method returns the object afterwards and the lines it printed.  Reading an attribute
  that was never assigned raises \<open>AttributeError\<close>, indexing \<open>None\<close> raises \<open>TypeError\<close>,
  a missing key raises \<open>KeyError\<close>.
\<close>

definition clear_acls :: "mmacls \<Rightarrow> error + mmacls" where
  "clear_acls self =
    (case acls self of
       Unset \<Rightarrow> Inl AttributeError
     | PyNone \<Rightarrow> Inl TypeError
     | Dict a \<Rightarrow> Inr (self\<lparr>acls := Dict (a\<lparr>MASK := None, USERS := None, GROUPS := None\<rparr>)\<rparr>))"

definition add_group_acl :: "mmacls \<Rightarrow> string \<Rightarrow> string \<Rightarrow> error + mmacls" where
  "add_group_acl self groupname mask' =
    (case acls self of
       Unset \<Rightarrow> Inl AttributeError
     | PyNone \<Rightarrow> Inl TypeError
     | Dict a \<Rightarrow>
        (case GROUPS a of
           None \<Rightarrow> Inl KeyError
         | Some gs \<Rightarrow>
            Inr (self\<lparr>acls := Dict (a\<lparr>GROUPS :=
                   Some (AList.update groupname \<lparr>PERMS = mask', EFFECTIVE = None\<rparr> gs)\<rparr>)\<rparr>)))"

definition del_user_acl :: "mmacls \<Rightarrow> string \<Rightarrow> error + mmacls \<times> string list" where
  "del_user_acl self username =
    (case acls self of
       Unset \<Rightarrow> Inl AttributeError
     | PyNone \<Rightarrow> Inl TypeError
     | Dict a \<Rightarrow>
        (case USERS a of
           None \<Rightarrow> Inl KeyError
         | Some us \<Rightarrow>
            if username \<in> set (map fst us) then
              (case default_acls self of
                 Unset \<Rightarrow> Inl AttributeError
               | PyNone \<Rightarrow> Inl TypeError
               | Dict da \<Rightarrow>
                  (case USERS da of
                     None \<Rightarrow> Inl KeyError
                   | Some dus \<Rightarrow>
                      if username \<in> set (map fst dus)
                      then Inr (self\<lparr>default_acls :=
                                  Dict (da\<lparr>USERS := Some (AList.delete username dus)\<rparr>)\<rparr>, [])
                      else Inl KeyError))
            else Inr (self, [username @ '' does not have a user ACL on '' @ filename self])))"

definition del_group_acl :: "mmacls \<Rightarrow> string \<Rightarrow> error + mmacls \<times> string list" where
  "del_group_acl self groupname =
    (case acls self of
       Unset \<Rightarrow> Inl AttributeError
     | PyNone \<Rightarrow> Inl TypeError
     | Dict a \<Rightarrow>
        (case GROUPS a of
           None \<Rightarrow> Inl KeyError
         | Some gs \<Rightarrow>
            if groupname \<in> set (map fst gs)
            then Inr (self\<lparr>acls := Dict (a\<lparr>GROUPS := Some (AList.delete groupname gs)\<rparr>)\<rparr>, [])
            else Inr (self, [groupname @ '' does not have a group ACL on '' @ filename self])))"

definition del_default_user_acl :: "mmacls \<Rightarrow> string \<Rightarrow> error + mmacls \<times> string list" where
  "del_default_user_acl self username =
    (case default_acls self of
       Unset \<Rightarrow> Inl AttributeError
     | PyNone \<Rightarrow> Inl TypeError
     | Dict da \<Rightarrow>
        (case USERS da of
           None \<Rightarrow> Inl KeyError
         | Some dus \<Rightarrow>
            if username \<in> set (map fst dus)
            then Inr (self\<lparr>default_acls :=
                        Dict (da\<lparr>USERS := Some (AList.delete username dus)\<rparr>)\<rparr>, [])
            else Inr (self, [username @ '' does not have a user ACL on '' @ filename self])))"

definition get_group_acl :: "mmacls \<Rightarrow> string \<Rightarrow> error + string" where
  "get_group_acl self group' =
    (case acls self of
       Unset \<Rightarrow> Inl AttributeError
     | PyNone \<Rightarrow> Inr ''????''
     | Dict a \<Rightarrow>
        (case GROUPS a of
           None \<Rightarrow> Inl KeyError
         | Some gs \<Rightarrow>
            (case map_of gs group' of
               Some ent \<Rightarrow> Inr (PERMS ent)
             | None \<Rightarrow> Inr ''----'')))"


section \<open>The serializer (\<open>write_acl_file\<close>)\<close>

text \<open>
  \<open>write_acl_file\<close> returns \<open>None\<close> after an error message when one of its three arguments
  is false, and otherwise writes the file: the model returns the text written.  A triad
  missing from \<open>myacls\<close> is taken from \<open>def_acl\<close>, where a missing key raises \<open>KeyError\<close>.
\<close>

definition triad :: "(acl \<Rightarrow> string option) \<Rightarrow> acl \<Rightarrow> acl \<Rightarrow> error + string" where
  "triad key myacls def_acl =
    (case key myacls of
       Some v \<Rightarrow> Inr v
     | None \<Rightarrow> (case key def_acl of Some v \<Rightarrow> Inr v | None \<Rightarrow> Inl KeyError))"

definition mask_text :: "acl \<Rightarrow> string" where
  "mask_text myacls =
    (case MASK myacls of
       Some v \<Rightarrow> ''mask::'' @ v @ NL
     | None \<Rightarrow>
        if USERS myacls \<noteq> None
        then (if GROUPS myacls \<noteq> None then ''mask::rwxc'' @ NL else [])
        else [])"

definition users_text :: "acl \<Rightarrow> string" where
  "users_text myacls =
    (case USERS myacls of
       None \<Rightarrow> []
     | Some us \<Rightarrow> concat (map (\<lambda>(user, ent). ''user:'' @ user @ '':'' @ PERMS ent @ NL) us))"

definition groups_text :: "acl \<Rightarrow> string" where
  "groups_text myacls =
    (case GROUPS myacls of
       None \<Rightarrow> []
     | Some gs \<Rightarrow> concat (map (\<lambda>(group', ent). ''group:'' @ group' @ '':'' @ PERMS ent @ NL) gs))"

definition write_acl_file :: "string option \<Rightarrow> acl option \<Rightarrow> acl option \<Rightarrow> error + string option" where
  "write_acl_file aclfile myacls def_acl =
    (if aclfile = None \<or> aclfile = Some [] then Inr None
     else if falsy myacls then Inr None
     else if falsy def_acl then Inr None
     else (case (myacls, def_acl) of
             (Some m, Some d) \<Rightarrow>
               (case triad USERP m d of
                  Inl e \<Rightarrow> Inl e
                | Inr userp \<Rightarrow>
                   (case triad GROUPP m d of
                      Inl e \<Rightarrow> Inl e
                    | Inr groupp \<Rightarrow>
                       (case triad OTHERP m d of
                          Inl e \<Rightarrow> Inl e
                        | Inr otherp \<Rightarrow>
                           Inr (Some (''user::'' @ userp @ NL @ ''group::'' @ groupp @ NL
                                      @ ''other::'' @ otherp @ NL
                                      @ mask_text m @ users_text m @ groups_text m)))))
           | _ \<Rightarrow> Inr None))"


section \<open>Predicates on strings and lines used in the statements\<close>

text \<open>
  \<open>one_line s\<close>: the string holds no line boundary.  \<open>header_line\<close>: the parser takes the
  line for an \<open>#owner:\<close> or \<open>#group:\<close> header, which it tests first.  \<open>first_field s\<close> is the
  text of \<open>s\<close> up to its first colon.
\<close>

definition one_line :: "string \<Rightarrow> bool" where
  "one_line s \<longleftrightarrow> CHR 0x0A \<notin> set s \<and> CHR 0x0D \<notin> set s"

definition header_line :: "string \<Rightarrow> bool" where
  "header_line line \<longleftrightarrow> sublist ''#owner:'' line \<or> sublist ''#group:'' line"

definition first_field :: "string \<Rightarrow> string" where
  "first_field s = takeWhile (\<lambda>c. c \<noteq> CHR '':'') s"

text \<open>
  The lines of the text that \<open>write_acl_file\<close> writes: \<open>user_line\<close> and \<open>group_line\<close> for a
  named entry, \<open>mask_lines\<close> for the mask (at most one line), \<open>named_lines\<close> for all named
  entries; \<open>entries_of\<close> reads an absent dictionary as one without entries.
  \<open>plain s\<close>: no colon and no line boundary in \<open>s\<close>.  \<open>entry_ok\<close>: a named entry that the
  parser reads back from its line as it was written: a name that is not empty, is plain, does
  not end in \<open>#owner\<close> or \<open>#group\<close> and does not contain \<open>effective\<close>, and plain
  permissions of at most four characters.  \<open>reparsed\<close> is the entry as the parser stores it.
\<close>

definition entries_of :: "entries option \<Rightarrow> entries" where
  "entries_of x = (case x of None \<Rightarrow> [] | Some es \<Rightarrow> es)"

definition user_line :: "string \<times> entry \<Rightarrow> string" where
  "user_line ne = ''user:'' @ fst ne @ '':'' @ PERMS (snd ne)"

definition group_line :: "string \<times> entry \<Rightarrow> string" where
  "group_line ne = ''group:'' @ fst ne @ '':'' @ PERMS (snd ne)"

definition mask_lines :: "acl \<Rightarrow> string list" where
  "mask_lines m =
    (case MASK m of
       Some v \<Rightarrow> [''mask::'' @ v]
     | None \<Rightarrow> if USERS m \<noteq> None \<and> GROUPS m \<noteq> None then [''mask::rwxc''] else [])"

definition named_lines :: "acl \<Rightarrow> string list" where
  "named_lines m =
    map user_line (entries_of (USERS m)) @ map group_line (entries_of (GROUPS m))"

definition entries_one_line :: "entries \<Rightarrow> bool" where
  "entries_one_line es \<longleftrightarrow> (\<forall>ne \<in> set es. one_line (fst ne) \<and> one_line (PERMS (snd ne)))"

definition named_one_line :: "acl \<Rightarrow> bool" where
  "named_one_line m \<longleftrightarrow>
     entries_one_line (entries_of (USERS m)) \<and> entries_one_line (entries_of (GROUPS m))"

definition plain :: "string \<Rightarrow> bool" where
  "plain s \<longleftrightarrow> CHR '':'' \<notin> set s \<and> one_line s"

definition entry_ok :: "string \<times> entry \<Rightarrow> bool" where
  "entry_ok ne \<longleftrightarrow>
     fst ne \<noteq> [] \<and> plain (fst ne)
     \<and> \<not> suffix ''#owner'' (fst ne) \<and> \<not> suffix ''#group'' (fst ne)
     \<and> \<not> sublist ''effective'' (fst ne)
     \<and> plain (PERMS (snd ne)) \<and> length (PERMS (snd ne)) \<le> 4"

definition reparsed :: "string \<times> entry \<Rightarrow> string \<times> entry" where
  "reparsed ne = (fst ne, \<lparr>PERMS = PERMS (snd ne), EFFECTIVE = Some ''????''\<rparr>)"


section \<open>Lemmas on the string primitives\<close>

lemma sublist_without_char: "c \<in> set w \<Longrightarrow> c \<notin> set s \<Longrightarrow> \<not> sublist w s"
  using set_mono_sublist by fastforce

lemma prefix_sep_iff:
  "c \<notin> set w \<Longrightarrow> c \<notin> set a \<Longrightarrow> prefix (w @ [c]) (a @ c # b) \<longleftrightarrow> w = a"
proof (induction w arbitrary: a)
  case Nil
  then show ?case by (cases a) auto
next
  case (Cons x w)
  then show ?case by (cases a) auto
qed

lemma sublist_sep_end:
  "c \<notin> set w \<Longrightarrow> c \<notin> set a \<Longrightarrow>
     sublist (w @ [c]) (a @ c # b) \<longleftrightarrow> suffix w a \<or> sublist (w @ [c]) b"
proof (induction a)
  case Nil
  then show ?case by (cases w) (auto simp add: sublist_Cons_right)
next
  case (Cons x a)
  have "prefix (w @ [c]) ((x # a) @ c # b) \<longleftrightarrow> w = x # a"
    using Cons.prems by (rule prefix_sep_iff)
  with Cons show ?case by (auto simp add: sublist_Cons_right suffix_Cons)
qed

lemma sublist_sep:
  assumes "c \<notin> set w"
  shows "sublist w (a @ c # b) \<longleftrightarrow> sublist w a \<or> sublist w b"
proof
  assume "sublist w (a @ c # b)"
  then consider "sublist w a" | "sublist w (c # b)"
    | w1 w2 where "w = w1 @ w2" "suffix w1 a" "prefix w2 (c # b)"
    by (auto simp add: sublist_append)
  then show "sublist w a \<or> sublist w b"
  proof cases
    case 1 then show ?thesis by simp
  next
    case 2
    with assms have "sublist w b" by (cases w) (auto simp add: sublist_Cons_right prefix_Cons)
    then show ?thesis by simp
  next
    case 3
    with assms have "w2 = []" by (cases w2) auto
    with 3 show ?thesis by auto
  qed
next
  assume "sublist w a \<or> sublist w b"
  then show "sublist w (a @ c # b)"
    by (metis append_Cons append_Nil sublist_append)
qed

lemma py_split_not_Nil [simp]: "py_split c s \<noteq> []"
  by (induction s) (auto split: list.splits)

lemma py_split_hd: "hd (py_split c s) = takeWhile (\<lambda>x. x \<noteq> c) s"
  by (induction s) (auto split: list.splits)

lemma py_split_append: "c \<notin> set a \<Longrightarrow> py_split c (a @ c # b) = a # py_split c b"
  by (induction a) (auto split: list.splits)

lemma py_split_single: "c \<notin> set a \<Longrightarrow> py_split c a = [a]"
  by (induction a) (auto split: list.splits)


lemma splitlines_line: "one_line l \<Longrightarrow> splitlines (l @ CHR 0x0A # rest) = l # splitlines rest"
  by (induction l) (auto simp add: one_line_def split: list.splits)

lemma splitlines_concat:
  "\<forall>l \<in> set ls. one_line l \<Longrightarrow> splitlines (concat (map (\<lambda>l. l @ NL) ls) @ rest) = ls @ splitlines rest"
  by (induction ls) (simp_all add: splitlines_line)

lemma nth0_hd: "xs \<noteq> [] \<Longrightarrow> xs ! 0 = hd xs"
  by (cases xs) simp_all


section \<open>Lemmas on the parser: one line\<close>

lemma triad_user_line:
  assumes "\<not> header_line (''user::'' @ rest)"
  shows "acl_line d (''user::'' @ rest) = Inr (d\<lparr>USERP := Some (first_field rest)\<rparr>)"
proof -
  have s: "py_split CHR '':'' (''user::'' @ rest) = ''user'' # [] # py_split CHR '':'' rest"
    by (simp split: list.splits)
  have h: "py_split CHR '':'' rest ! 0 = first_field rest"
    by (simp add: nth0_hd py_split_hd first_field_def)
  from assms have n: "\<not> sublist ''#owner:'' (''user::'' @ rest)" "\<not> sublist ''#group:'' (''user::'' @ rest)"
    by (simp_all add: header_line_def)
  show ?thesis
    unfolding acl_line_def using n by (simp only: if_False s) (simp add: py_index_def h)
qed

lemma triad_group_line:
  assumes "\<not> header_line (''group::'' @ rest)"
  shows "acl_line d (''group::'' @ rest) = Inr (d\<lparr>GROUPP := Some (first_field rest)\<rparr>)"
proof -
  have s: "py_split CHR '':'' (''group::'' @ rest) = ''group'' # [] # py_split CHR '':'' rest"
    by (simp split: list.splits)
  have h: "py_split CHR '':'' rest ! 0 = first_field rest"
    by (simp add: nth0_hd py_split_hd first_field_def)
  from assms have n: "\<not> sublist ''#owner:'' (''group::'' @ rest)" "\<not> sublist ''#group:'' (''group::'' @ rest)"
    by (simp_all add: header_line_def)
  show ?thesis
    unfolding acl_line_def using n by (simp only: if_False s) (simp add: py_index_def h)
qed

lemma triad_other_line:
  assumes "\<not> header_line (''other::'' @ rest)"
  shows "acl_line d (''other::'' @ rest) = Inr (d\<lparr>OTHERP := Some (first_field rest)\<rparr>)"
proof -
  have s: "py_split CHR '':'' (''other::'' @ rest) = ''other'' # [] # py_split CHR '':'' rest"
    by (simp split: list.splits)
  have h: "py_split CHR '':'' rest ! 0 = first_field rest"
    by (simp add: nth0_hd py_split_hd first_field_def)
  from assms have n: "\<not> sublist ''#owner:'' (''other::'' @ rest)" "\<not> sublist ''#group:'' (''other::'' @ rest)"
    by (simp_all add: header_line_def)
  have o: "sublist ''other::'' (''other::'' @ rest)" by (rule sublist_append_rightI)
  show ?thesis
    unfolding acl_line_def using n o by (simp only: if_False if_True s) (simp add: py_index_def h)
qed

lemma mask_line:
  assumes "\<not> header_line (''mask::'' @ rest)" and "\<not> sublist ''other::'' (''mask::'' @ rest)"
  shows "acl_line d (''mask::'' @ rest) = Inr (d\<lparr>MASK := Some (first_field rest)\<rparr>)"
proof -
  have s: "py_split CHR '':'' (''mask::'' @ rest) = ''mask'' # [] # py_split CHR '':'' rest"
    by (simp split: list.splits)
  have h: "py_split CHR '':'' rest ! 0 = first_field rest"
    by (simp add: nth0_hd py_split_hd first_field_def)
  from assms have n: "\<not> sublist ''#owner:'' (''mask::'' @ rest)" "\<not> sublist ''#group:'' (''mask::'' @ rest)"
    by (simp_all add: header_line_def)
  have o: "sublist ''mask::'' (''mask::'' @ rest)" by (rule sublist_append_rightI)
  show ?thesis
    unfolding acl_line_def using n o assms(2) by (simp only: if_False if_True s) (simp add: py_index_def h)
qed





lemma named_entry_no_effective:
  assumes "CHR '':'' \<notin> set a" and "CHR '':'' \<notin> set name"
    and "\<not> sublist ''effective'' (a @ CHR '':'' # name @ CHR '':'' # rest)"
  shows "named_entry (a @ CHR '':'' # name @ CHR '':'' # rest)
           = Inr \<lparr>PERMS = take 4 (first_field rest), EFFECTIVE = Some ''????''\<rparr>"
proof -
  have s: "py_split CHR '':'' (a @ CHR '':'' # name @ CHR '':'' # rest) = a # name # py_split CHR '':'' rest"
    using assms(1,2) by (simp add: py_split_append)
  have h: "py_split CHR '':'' rest ! 0 = first_field rest"
    by (simp add: nth0_hd py_split_hd first_field_def)
  from assms(3) show ?thesis unfolding named_entry_def s by (simp add: py_index_def h)
qed

lemma named_user_line_no_effective:
  assumes "name \<noteq> []" and "CHR '':'' \<notin> set name"
    and "\<not> header_line (''user:'' @ name @ '':'' @ rest)"
    and "USERS d = Some us"
    and "\<not> sublist ''effective'' (''user:'' @ name @ '':'' @ rest)"
  shows "acl_line d (''user:'' @ name @ '':'' @ rest)
           = Inr (d\<lparr>USERS := Some (AList.update name
                    \<lparr>PERMS = take 4 (first_field rest), EFFECTIVE = Some ''????''\<rparr> us)\<rparr>)"
proof -
  let ?line = "''user:'' @ name @ '':'' @ rest"
  have s: "py_split CHR '':'' ?line = ''user'' # name # py_split CHR '':'' rest"
    using py_split_append [of "CHR '':''" "''user''" "name @ '':'' @ rest"]
          py_split_append [of "CHR '':''" name rest] assms(2) by simp
  from assms(3) have n: "\<not> sublist ''#owner:'' ?line" "\<not> sublist ''#group:'' ?line"
    by (simp_all add: header_line_def)
  have p: "prefix ''user:'' ?line" by simp
  have e: "named_entry ?line = Inr \<lparr>PERMS = take 4 (first_field rest), EFFECTIVE = Some ''????''\<rparr>"
    using named_entry_no_effective [of "''user''" name rest] assms(2,5) by simp
  show ?thesis
    unfolding acl_line_def using n p assms(1,4) e
    by (simp only: if_False if_True s) (simp add: py_index_def)
qed


section \<open>Properties of the command runner\<close>

text \<open>
  Claim C10.  Called with no command string (\<open>None\<close>) or with the empty string, the
  command runner spawns nothing (the list of spawned argument vectors is unchanged, whatever
  \<open>shlex.split\<close> and \<open>Popen\<close> would do) and returns the triple \<open>(99999999, None, None)\<close>; it
  raises no error.
\<close>

theorem execute_command_empty:
  "execute_command shlex_split popen None spawned = (Inr (99999999, None, None), spawned)
   \<and> execute_command shlex_split popen (Some []) spawned = (Inr (99999999, None, None), spawned)"
  by (simp add: execute_command_def)


section \<open>Properties of the update-or-append operation\<close>

text \<open>
  Claim C7.  When the buffer contains the owner directive \<open>user::\<close> and does not contain
  the group name, the resulting buffer is the old buffer, followed by the line
  \<open>mask::r-x-\<close> exactly when the old buffer has no \<open>mask::\<close> directive, followed by the line
  \<open>group:<name>:<perms>\<close>; the setter is then invoked.  This holds for the access scope
  (\<open>gac_update_acl\<close>) and for the default scope (\<open>gac_update_default_acl\<close>).
\<close>

theorem gac_update_acl_appends:
  assumes "sublist ''user::'' buf" and "\<not> sublist g buf"
  shows "gac_update_acl buf g p =
           (buf @ (if sublist ''mask::'' buf then [] else ''mask::r-x-'' @ NL)
                @ ''group:'' @ g @ '':'' @ p @ NL, True)
       \<and> gac_update_default_acl buf g p =
           (buf @ (if sublist ''mask::'' buf then [] else ''mask::r-x-'' @ NL)
                @ ''group:'' @ g @ '':'' @ p @ NL, True)"
proof -
  from assms(2) have "g \<noteq> []" by auto
  with assms show ?thesis
    by (simp add: gac_update_acl_def gac_update_default_acl_def Let_def)
qed

text \<open>
  The scenario of the specification: the group \<open>devteam\<close> with \<open>rwx-\<close> on a buffer with the
  two headers and the three triads, in both scopes.
\<close>

theorem gac_update_acl_appends_witness:
  "sublist ''user::'' (''#owner:alice'' @ NL @ ''#group:staff'' @ NL @ ''user::rwxc'' @ NL @ ''group::r-x-'' @ NL @ ''other::----'' @ NL)
   \<and> \<not> sublist ''devteam'' (''#owner:alice'' @ NL @ ''#group:staff'' @ NL @ ''user::rwxc'' @ NL @ ''group::r-x-'' @ NL @ ''other::----'' @ NL)
   \<and> gac_update_acl (''#owner:alice'' @ NL @ ''#group:staff'' @ NL @ ''user::rwxc'' @ NL @ ''group::r-x-'' @ NL @ ''other::----'' @ NL) ''devteam'' ''rwx-''
     = (''#owner:alice'' @ NL @ ''#group:staff'' @ NL @ ''user::rwxc'' @ NL @ ''group::r-x-'' @ NL @ ''other::----'' @ NL
         @ ''mask::r-x-'' @ NL @ ''group:devteam:rwx-'' @ NL, True)
   \<and> gac_update_default_acl (''#owner:alice'' @ NL @ ''#group:staff'' @ NL @ ''user::rwxc'' @ NL @ ''group::r-x-'' @ NL @ ''other::----'' @ NL) ''devteam'' ''rwx-''
     = (''#owner:alice'' @ NL @ ''#group:staff'' @ NL @ ''user::rwxc'' @ NL @ ''group::r-x-'' @ NL @ ''other::----'' @ NL
         @ ''mask::r-x-'' @ NL @ ''group:devteam:rwx-'' @ NL, True)"
  using gac_update_acl_appends [of "''#owner:alice'' @ NL @ ''#group:staff'' @ NL @ ''user::rwxc'' @ NL @ ''group::r-x-'' @ NL @ ''other::----'' @ NL" "''devteam''" "''rwx-''"]
  by (simp add: sublist_Cons_right)

text \<open>
  Claim C8, as amended.  When the buffer does not contain \<open>user::\<close>, the four lines
  \<open>user::rwxc\<close>, \<open>group::r-x-\<close>, \<open>other::----\<close>, \<open>mask::r-x-\<close> are appended in this order
  and nothing else is backfilled (no second \<open>mask::\<close> line).  The group line follows them,
  and the setter is invoked, only when the group name does not occur in the buffer; when it
  occurs, nothing follows the four lines and the setter is not invoked.  The same holds for
  \<open>gac_update_default_acl\<close>.
\<close>

theorem gac_update_acl_backfill:
  assumes "\<not> sublist ''user::'' buf"
  shows "gac_update_acl buf g p =
           (buf @ backfill @ (if sublist g buf then [] else ''group:'' @ g @ '':'' @ p @ NL), \<not> sublist g buf)
       \<and> gac_update_default_acl buf g p =
           (buf @ backfill @ (if sublist g buf then [] else ''group:'' @ g @ '':'' @ p @ NL), \<not> sublist g buf)"
  using assms by (auto simp add: gac_update_acl_def gac_update_default_acl_def Let_def)

text \<open>A buffer with the two headers only.\<close>

theorem gac_update_acl_backfill_witness:
  "\<not> sublist ''user::'' (''#owner:alice'' @ NL @ ''#group:staff'' @ NL)
   \<and> gac_update_acl (''#owner:alice'' @ NL @ ''#group:staff'' @ NL) ''devteam'' ''rwx-''
     = (''#owner:alice'' @ NL @ ''#group:staff'' @ NL @ ''user::rwxc'' @ NL @ ''group::r-x-'' @ NL
          @ ''other::----'' @ NL @ ''mask::r-x-'' @ NL @ ''group:devteam:rwx-'' @ NL, True)
   \<and> gac_update_default_acl (''#owner:alice'' @ NL @ ''#group:staff'' @ NL) ''devteam'' ''rwx-''
     = (''#owner:alice'' @ NL @ ''#group:staff'' @ NL @ ''user::rwxc'' @ NL @ ''group::r-x-'' @ NL
          @ ''other::----'' @ NL @ ''mask::r-x-'' @ NL @ ''group:devteam:rwx-'' @ NL, True)"
  using gac_update_acl_backfill [of "''#owner:alice'' @ NL @ ''#group:staff'' @ NL" "''devteam''" "''rwx-''"]
  by (simp add: sublist_Cons_right backfill_def)

text \<open>
  Claim C8 as stated fails on a buffer without \<open>user::\<close> that names the group, here as the
  owning group in the header: the four lines are backfilled, but no group line is appended
  after them and the setter is not invoked, in either scope.
\<close>

theorem gac_update_acl_backfill_counterexample:
  "\<not> sublist ''user::'' (''#owner:alice'' @ NL @ ''#group:devteam'' @ NL)
   \<and> gac_update_acl (''#owner:alice'' @ NL @ ''#group:devteam'' @ NL) ''devteam'' ''rwx-''
     = (''#owner:alice'' @ NL @ ''#group:devteam'' @ NL @ ''user::rwxc'' @ NL @ ''group::r-x-'' @ NL
          @ ''other::----'' @ NL @ ''mask::r-x-'' @ NL, False)
   \<and> gac_update_default_acl (''#owner:alice'' @ NL @ ''#group:devteam'' @ NL) ''devteam'' ''rwx-''
     = (''#owner:alice'' @ NL @ ''#group:devteam'' @ NL @ ''user::rwxc'' @ NL @ ''group::r-x-'' @ NL
          @ ''other::----'' @ NL @ ''mask::r-x-'' @ NL, False)"
  by (simp add: gac_update_acl_def gac_update_default_acl_def Let_def sublist_Cons_right backfill_def)




section \<open>Properties of the parser\<close>




text \<open>
  Claim C3, as amended.  The line \<open>user:bob:rwx-:effective:r---\<close> gives the entry \<open>bob\<close> with
  permissions \<open>rwx-\<close>; its effective value is read from the fourth colon-delimited field,
  which in this line is the word \<open>effective\<close>, and is \<open>ffec\<close> (characters 1 to 4).  The line
  \<open>user:carol:r---\<close> gives the entry \<open>carol\<close> with permissions \<open>r---\<close> and effective \<open>????\<close>.

  In general: every line \<open>user:<name>:<rest>\<close> that does not contain the word \<open>effective\<close>,
  whose name is not empty and has no colon, and which the parser does not read as a header
  (it contains neither \<open>#owner:\<close> nor \<open>#group:\<close>), stores for the name an entry whose
  effective field is \<open>????\<close>, in the \<open>USERS\<close> dictionary that the dictionary under
  construction has.
\<close>

theorem get_acl_effective_scenarios:
  "get_acl self (0, ''user:bob:rwx-:effective:r---'' @ NL, err) =
     Inr (self\<lparr>acls := Dict (empty_dict\<lparr>GROUPS := Some [],
            USERS := Some [(''bob'', \<lparr>PERMS = ''rwx-'', EFFECTIVE = Some ''ffec''\<rparr>)],
            FQPN := Some (filename self), DIRNAME := Some (dirname self)\<rparr>)\<rparr>)
   \<and> get_acl self (0, ''user:carol:r---'' @ NL, err) =
     Inr (self\<lparr>acls := Dict (empty_dict\<lparr>GROUPS := Some [],
            USERS := Some [(''carol'', \<lparr>PERMS = ''r---'', EFFECTIVE = Some ''????''\<rparr>)],
            FQPN := Some (filename self), DIRNAME := Some (dirname self)\<rparr>)\<rparr>)
   \<and> (name \<noteq> [] \<and> CHR '':'' \<notin> set name \<and> USERS d = Some us
        \<and> \<not> header_line (''user:'' @ name @ '':'' @ rest)
        \<and> \<not> sublist ''effective'' (''user:'' @ name @ '':'' @ rest) \<longrightarrow>
      acl_line d (''user:'' @ name @ '':'' @ rest)
        = Inr (d\<lparr>USERS := Some (AList.update name
                 \<lparr>PERMS = take 4 (first_field rest), EFFECTIVE = Some ''????''\<rparr> us)\<rparr>))"
proof -
  have "get_acl self (0, ''user:bob:rwx-:effective:r---'' @ NL, err) =
     Inr (self\<lparr>acls := Dict (empty_dict\<lparr>GROUPS := Some [],
            USERS := Some [(''bob'', \<lparr>PERMS = ''rwx-'', EFFECTIVE = Some ''ffec''\<rparr>)],
            FQPN := Some (filename self), DIRNAME := Some (dirname self)\<rparr>)\<rparr>)"
    by (simp add: get_acl_def acl_line_def named_entry_def py_index_def sublist_Cons_right)
  moreover have "get_acl self (0, ''user:carol:r---'' @ NL, err) =
     Inr (self\<lparr>acls := Dict (empty_dict\<lparr>GROUPS := Some [],
            USERS := Some [(''carol'', \<lparr>PERMS = ''r---'', EFFECTIVE = Some ''????''\<rparr>)],
            FQPN := Some (filename self), DIRNAME := Some (dirname self)\<rparr>)\<rparr>)"
    by (simp add: get_acl_def acl_line_def named_entry_def py_index_def sublist_Cons_right)
  ultimately show ?thesis
    using named_user_line_no_effective [of name rest d us] by blast
qed

text \<open>
  The general part at the line \<open>user:carol:r---  #mask\<close>, parsed into a dictionary that
  already holds an entry for \<open>carol\<close> with another effective value.
\<close>

theorem get_acl_effective_scenarios_witness:
  "acl_line (empty_dict\<lparr>USERS := Some [(''carol'', \<lparr>PERMS = ''rwxc'', EFFECTIVE = Some ''rwx-''\<rparr>)],
                       GROUPS := Some []\<rparr>)
            ''user:carol:r---  #mask''
     = Inr (empty_dict\<lparr>USERS := Some [(''carol'', \<lparr>PERMS = ''r---'', EFFECTIVE = Some ''????''\<rparr>)],
                       GROUPS := Some []\<rparr>)"
  using get_acl_effective_scenarios [of "\<lparr>filename = ''/data/acl/a'', dirname = ''/data/acl'', acls = Unset, default_acls = Unset\<rparr>"
          "[]" "''carol''" "empty_dict\<lparr>USERS := Some [(''carol'', \<lparr>PERMS = ''rwxc'', EFFECTIVE = Some ''rwx-''\<rparr>)],
                       GROUPS := Some []\<rparr>"
          "[(''carol'', \<lparr>PERMS = ''rwxc'', EFFECTIVE = Some ''rwx-''\<rparr>)]" "''r---  #mask''"]
  by (simp add: header_line_def first_field_def sublist_Cons_right empty_dict_def)

text \<open>Claim C3 as stated expects the effective value \<open>r---\<close> for \<open>bob\<close>; the parser stores \<open>ffec\<close>.\<close>

theorem get_acl_effective_counterexample:
  "get_acl \<lparr>filename = ''/data/acl/a'', dirname = ''/data/acl'', acls = Unset, default_acls = Unset\<rparr>
       (0, ''user:bob:rwx-:effective:r---'' @ NL, [])
   = Inr \<lparr>filename = ''/data/acl/a'', dirname = ''/data/acl'',
          acls = Dict \<lparr>FQPN = Some ''/data/acl/a'', DIRNAME = Some ''/data/acl'', OWNER = None,
             GROUP = None, USERP = None, GROUPP = None, OTHERP = None, MASK = None,
             USERS = Some [(''bob'', \<lparr>PERMS = ''rwx-'', EFFECTIVE = Some ''ffec''\<rparr>)],
             GROUPS = Some []\<rparr>,
          default_acls = Unset\<rparr>
   \<and> Some ''ffec'' \<noteq> Some ''r---''"
  by (simp add: get_acl_def acl_line_def named_entry_def py_index_def sublist_Cons_right empty_dict_def)


section \<open>Properties of the mutators\<close>

text \<open>
  \<open>del_user_acl\<close> tests the name against \<open>self.acls\<close> and then deletes it from
  \<open>self.default_acls\<close>, so it never changes \<open>self.acls\<close>; \<open>del_group_acl\<close> deletes from the
  dictionary it has tested.
\<close>

lemma del_user_acl_keeps_acls:
  "del_user_acl self username = Inr (self', out) \<Longrightarrow> acls self' = acls self"
  by (auto simp add: del_user_acl_def split: attr.splits option.splits if_splits)

lemma del_group_acl_present:
  assumes "acls self = Dict a" and "GROUPS a = Some gs" and "groupname \<in> set (map fst gs)"
  shows "del_group_acl self groupname =
           Inr (self\<lparr>acls := Dict (a\<lparr>GROUPS := Some (AList.delete groupname gs)\<rparr>)\<rparr>, [])"
  using assms by (simp add: del_group_acl_def)

text \<open>
  Claim C2 at a directory whose access ACL and default ACL both name \<open>bob\<close>: after
  \<open>del_user_acl\<close> the access ACL still holds \<open>bob\<close>, and the entry of \<open>bob\<close> is gone from the
  default ACL.  When only the access ACL names \<open>bob\<close>, the deletion raises \<open>KeyError\<close>.
\<close>

theorem del_user_acl_wrong_dict:
  "del_user_acl
     \<lparr>filename = ''/data/acl/d'', dirname = ''/data/acl/d'',
      acls = Dict (empty_dict\<lparr>USERS := Some [(''bob'', \<lparr>PERMS = ''rwx-'', EFFECTIVE = Some ''????''\<rparr>)], GROUPS := Some []\<rparr>),
      default_acls = Dict (empty_dict\<lparr>USERS := Some [(''bob'', \<lparr>PERMS = ''r---'', EFFECTIVE = Some ''????''\<rparr>)], GROUPS := Some []\<rparr>)\<rparr>
     ''bob''
   = Inr (\<lparr>filename = ''/data/acl/d'', dirname = ''/data/acl/d'',
      acls = Dict (empty_dict\<lparr>USERS := Some [(''bob'', \<lparr>PERMS = ''rwx-'', EFFECTIVE = Some ''????''\<rparr>)], GROUPS := Some []\<rparr>),
      default_acls = Dict (empty_dict\<lparr>USERS := Some [], GROUPS := Some []\<rparr>)\<rparr>, [])
   \<and> del_user_acl
     \<lparr>filename = ''/data/acl/d'', dirname = ''/data/acl/d'',
      acls = Dict (empty_dict\<lparr>USERS := Some [(''bob'', \<lparr>PERMS = ''rwx-'', EFFECTIVE = Some ''????''\<rparr>)], GROUPS := Some []\<rparr>),
      default_acls = Dict (empty_dict\<lparr>USERS := Some [], GROUPS := Some []\<rparr>)\<rparr>
     ''bob''
   = Inl KeyError"
  by (simp add: del_user_acl_def empty_dict_def)

text \<open>
  Where \<open>get_group_acl\<close> returns: \<open>????\<close> when \<open>self.acls\<close> is \<open>None\<close>, and when \<open>self.acls\<close> is
  a dictionary that has its \<open>GROUPS\<close> dictionary, the stored permissions of the group if
  \<open>GROUPS\<close> has an entry for it and \<open>----\<close> if not.
\<close>

lemma get_group_acl_returns:
  "(acls self = PyNone \<longrightarrow> get_group_acl self g = Inr ''????'')
   \<and> (\<forall>a gs ent. acls self = Dict a \<and> GROUPS a = Some gs \<and> map_of gs g = Some ent
          \<longrightarrow> get_group_acl self g = Inr (PERMS ent))
   \<and> (\<forall>a gs. acls self = Dict a \<and> GROUPS a = Some gs \<and> map_of gs g = None
          \<longrightarrow> get_group_acl self g = Inr ''----'')"
  by (simp add: get_group_acl_def)

text \<open>
  Claim C9: \<open>get_group_acl\<close> is to return the stored permissions, \<open>----\<close> when the record has
  no entry for the group, and \<open>????\<close> when the record is not available; its docstring says
  the same (a four character string, \<open>????\<close> if the file does not exist, \<open>----\<close> if the group
  has no ACL on the file).  The method does not do so in two states that the class itself
  produces.  After \<open>clear_acls\<close> the dictionary has no \<open>GROUPS\<close> key: the record holds no entry
  for the group, and the lookup raises \<open>KeyError\<close> instead of returning \<open>----\<close>.  On an object
  whose constructor did not find the path, \<open>self.acls\<close> was never assigned: the record is not
  available, and the method raises \<open>AttributeError\<close> instead of returning \<open>????\<close>, whatever
  the other attributes hold.
\<close>

theorem get_group_acl_raises:
  "clear_acls \<lparr>filename = ''/data/acl/a'', dirname = ''/data/acl'',
       acls = Dict (empty_dict\<lparr>USERP := Some ''rwxc'', USERS := Some [], GROUPS := Some []\<rparr>),
       default_acls = Unset\<rparr>
     = Inr \<lparr>filename = ''/data/acl/a'', dirname = ''/data/acl'',
       acls = Dict (empty_dict\<lparr>USERP := Some ''rwxc''\<rparr>), default_acls = Unset\<rparr>
   \<and> get_group_acl \<lparr>filename = ''/data/acl/a'', dirname = ''/data/acl'',
       acls = Dict (empty_dict\<lparr>USERP := Some ''rwxc''\<rparr>), default_acls = Unset\<rparr> ''staff''
     = Inl KeyError
   \<and> get_group_acl \<lparr>filename = f, dirname = dn, acls = Unset, default_acls = Unset\<rparr> ''staff''
     = Inl AttributeError"
  by (simp add: clear_acls_def get_group_acl_def empty_dict_def)


section \<open>Lemmas on the serializer and on parsing its lines\<close>

lemma mask_text_lines: "mask_text m = concat (map (\<lambda>l. l @ NL) (mask_lines m))"
  by (simp add: mask_text_def mask_lines_def split: option.splits)

lemma users_text_lines:
  "users_text m = concat (map (\<lambda>l. l @ NL) (map user_line (entries_of (USERS m))))"
proof (cases "USERS m")
  case None
  then show ?thesis by (simp add: users_text_def entries_of_def)
next
  case (Some us)
  have "concat (map (\<lambda>(user, ent). ''user:'' @ user @ '':'' @ PERMS ent @ NL) us)
        = concat (map (\<lambda>l. l @ NL) (map user_line us))"
    by (induction us) (auto simp add: user_line_def)
  with Some show ?thesis by (simp add: users_text_def entries_of_def)
qed

lemma groups_text_lines:
  "groups_text m = concat (map (\<lambda>l. l @ NL) (map group_line (entries_of (GROUPS m))))"
proof (cases "GROUPS m")
  case None
  then show ?thesis by (simp add: groups_text_def entries_of_def)
next
  case (Some gs)
  have "concat (map (\<lambda>(group', ent). ''group:'' @ group' @ '':'' @ PERMS ent @ NL) gs)
        = concat (map (\<lambda>l. l @ NL) (map group_line gs))"
    by (induction gs) (auto simp add: group_line_def)
  with Some show ?thesis by (simp add: groups_text_def entries_of_def)
qed

lemma write_acl_file_lines:
  assumes "f \<noteq> []" and "m \<noteq> empty_dict" and "d \<noteq> empty_dict"
    and "triad USERP m d = Inr u" and "triad GROUPP m d = Inr g" and "triad OTHERP m d = Inr ot"
  shows "write_acl_file (Some f) (Some m) (Some d) =
           Inr (Some (concat (map (\<lambda>l. l @ NL)
                  ([''user::'' @ u, ''group::'' @ g, ''other::'' @ ot] @ mask_lines m @ named_lines m))))"
  using assms
  by (simp add: write_acl_file_def falsy_def mask_text_lines users_text_lines groups_text_lines
        named_lines_def)

lemma one_line_append [simp]: "one_line (a @ b) \<longleftrightarrow> one_line a \<and> one_line b"
  by (auto simp add: one_line_def)

lemma one_line_Cons: "one_line (c # s) \<longleftrightarrow> c \<noteq> CHR 0x0A \<and> c \<noteq> CHR 0x0D \<and> one_line s"
  by (auto simp add: one_line_def)

lemma one_line_Nil [simp]: "one_line []"
  by (simp add: one_line_def)

lemma splitlines_unlines:
  "\<forall>l \<in> set ls. one_line l \<Longrightarrow> splitlines (concat (map (\<lambda>l. l @ NL) ls)) = ls"
  using splitlines_concat [of ls "[]"] by simp

lemma named_lines_one_line:
  assumes "named_one_line m" and "l \<in> set (named_lines m)"
  shows "one_line l"
  using assms
  by (auto simp add: named_one_line_def named_lines_def entries_one_line_def user_line_def
        group_line_def one_line_Cons split: option.splits)

lemma mask_lines_one_line:
  assumes "MASK m = None" and "l \<in> set (mask_lines m)"
  shows "one_line l"
  using assms by (auto simp add: mask_lines_def one_line_Cons split: if_splits)

lemma named_lines_not_mask: "''mask::rwxc'' \<notin> set (named_lines m)"
  by (auto simp add: named_lines_def user_line_def group_line_def split: option.splits)

lemma first_field_plain: "CHR '':'' \<notin> set s \<Longrightarrow> first_field s = s"
  by (induction s) (auto simp add: first_field_def)

lemma not_header_triad:
  assumes "CHR '':'' \<notin> set a" and "CHR '':'' \<notin> set v"
    and "\<not> suffix ''#owner'' a" and "\<not> suffix ''#group'' a"
  shows "\<not> header_line (a @ CHR '':'' # CHR '':'' # v)"
proof -
  have "\<not> sublist (w @ [CHR '':'']) (a @ CHR '':'' # CHR '':'' # v)"
    if "CHR '':'' \<notin> set w" "\<not> suffix w a" "w \<noteq> []" for w
  proof -
    have "\<not> sublist (w @ [CHR '':'']) v"
      using assms(2) by (intro sublist_without_char [of "CHR '':''"]) simp_all
    then have "\<not> sublist (w @ [CHR '':'']) ([] @ CHR '':'' # v)"
      using that sublist_sep_end [of "CHR '':''" w "[]" v] by simp
    then show ?thesis
      using that assms(1) sublist_sep_end [of "CHR '':''" w a "CHR '':'' # v"] by simp
  qed
  from this [of "''#owner''"] this [of "''#group''"] assms(3,4)
  show ?thesis by (simp add: header_line_def)
qed

lemma not_header_named:
  assumes "CHR '':'' \<notin> set a" and "CHR '':'' \<notin> set n" and "CHR '':'' \<notin> set v"
    and "\<not> suffix ''#owner'' a" and "\<not> suffix ''#group'' a"
    and "\<not> suffix ''#owner'' n" and "\<not> suffix ''#group'' n"
  shows "\<not> header_line (a @ CHR '':'' # n @ CHR '':'' # v)"
proof -
  have "\<not> sublist (w @ [CHR '':'']) (a @ CHR '':'' # n @ CHR '':'' # v)"
    if "CHR '':'' \<notin> set w" "\<not> suffix w a" "\<not> suffix w n" for w
  proof -
    have "\<not> sublist (w @ [CHR '':'']) v"
      using assms(3) by (intro sublist_without_char [of "CHR '':''"]) simp_all
    then have "\<not> sublist (w @ [CHR '':'']) (n @ CHR '':'' # v)"
      using that assms(2) sublist_sep_end [of "CHR '':''" w n v] by simp
    then show ?thesis
      using that assms(1) sublist_sep_end [of "CHR '':''" w a "n @ CHR '':'' # v"] by simp
  qed
  from this [of "''#owner''"] this [of "''#group''"] assms(4-7)
  show ?thesis by (simp add: header_line_def)
qed

lemma no_effective_named:
  assumes "\<not> sublist ''effective'' a" and "\<not> sublist ''effective'' n" and "length v \<le> 4"
  shows "\<not> sublist ''effective'' (a @ CHR '':'' # n @ CHR '':'' # v)"
proof -
  have "\<not> sublist ''effective'' v"
    using assms(3) sublist_length_le [of "''effective''" v] by auto
  then show ?thesis
    using assms(1,2) by (simp add: sublist_sep)
qed

lemma update_fresh: "k \<notin> set (map fst ps) \<Longrightarrow> AList.update k v ps = ps @ [(k, v)]"
  by (induction ps) auto

lemma acl_lines_append:
  "acl_lines d (xs @ ys) = (case acl_lines d xs of Inl e \<Rightarrow> Inl e | Inr d' \<Rightarrow> acl_lines d' ys)"
  by (induction xs arbitrary: d) (auto split: sum.splits)

lemma user_line_parse:
  assumes "entry_ok ne" and "USERS d = Some us"
  shows "acl_line d (user_line ne) = Inr (d\<lparr>USERS := Some (AList.update (fst ne) (snd (reparsed ne)) us)\<rparr>)"
proof -
  let ?n = "fst ne" and ?v = "PERMS (snd ne)"
  let ?line = "''user:'' @ ?n @ '':'' @ ?v"
  from assms(1) have ok: "?n \<noteq> []" "CHR '':'' \<notin> set ?n" "CHR '':'' \<notin> set ?v" "length ?v \<le> 4"
    "\<not> suffix ''#owner'' ?n" "\<not> suffix ''#group'' ?n" "\<not> sublist ''effective'' ?n"
    by (simp_all add: entry_ok_def plain_def)
  have s: "py_split CHR '':'' ?line = [''user'', ?n, ?v]"
    using py_split_append [of "CHR '':''" "''user''" "?n @ '':'' @ ?v"]
          py_split_append [of "CHR '':''" ?n ?v] py_split_single [of "CHR '':''" ?v] ok(2,3) by simp
  have h: "\<not> header_line ?line"
    using not_header_named [of "''user''" ?n ?v] ok by (simp add: suffix_Cons)
  then have n: "\<not> sublist ''#owner:'' ?line" "\<not> sublist ''#group:'' ?line"
    by (simp_all add: header_line_def)
  have e: "\<not> sublist ''effective'' ?line"
    using no_effective_named [of "''user''" ?n ?v] ok by (simp add: sublist_Cons_right)
  have p: "prefix ''user:'' ?line" by simp
  have ent: "named_entry ?line = Inr (snd (reparsed ne))"
    unfolding named_entry_def s using e ok(4) by (simp add: py_index_def reparsed_def)
  show ?thesis
    unfolding user_line_def acl_line_def using n p ok(1) assms(2) ent
    by (simp only: if_False if_True s) (simp add: py_index_def)
qed

lemma group_line_parse:
  assumes "entry_ok ne" and "GROUPS d = Some gs"
  shows "acl_line d (group_line ne) = Inr (d\<lparr>GROUPS := Some (AList.update (fst ne) (snd (reparsed ne)) gs)\<rparr>)"
proof -
  let ?n = "fst ne" and ?v = "PERMS (snd ne)"
  let ?line = "''group:'' @ ?n @ '':'' @ ?v"
  from assms(1) have ok: "?n \<noteq> []" "CHR '':'' \<notin> set ?n" "CHR '':'' \<notin> set ?v" "length ?v \<le> 4"
    "\<not> suffix ''#owner'' ?n" "\<not> suffix ''#group'' ?n" "\<not> sublist ''effective'' ?n"
    by (simp_all add: entry_ok_def plain_def)
  have s: "py_split CHR '':'' ?line = [''group'', ?n, ?v]"
    using py_split_append [of "CHR '':''" "''group''" "?n @ '':'' @ ?v"]
          py_split_append [of "CHR '':''" ?n ?v] py_split_single [of "CHR '':''" ?v] ok(2,3) by simp
  have h: "\<not> header_line ?line"
    using not_header_named [of "''group''" ?n ?v] ok by (simp add: suffix_Cons)
  then have n: "\<not> sublist ''#owner:'' ?line" "\<not> sublist ''#group:'' ?line"
    by (simp_all add: header_line_def)
  have e: "\<not> sublist ''effective'' ?line"
    using no_effective_named [of "''group''" ?n ?v] ok by (simp add: sublist_Cons_right)
  have p: "prefix ''group:'' ?line" "\<not> prefix ''user:'' ?line" by simp_all
  have ent: "named_entry ?line = Inr (snd (reparsed ne))"
    unfolding named_entry_def s using e ok(4) by (simp add: py_index_def reparsed_def)
  show ?thesis
    unfolding group_line_def acl_line_def using n p ok(1) assms(2) ent
    by (simp only: if_False if_True s) (simp add: py_index_def)
qed

lemma acl_lines_users:
  assumes "list_all entry_ok es" and "distinct (map fst es)" and "USERS d = Some acc"
    and "set (map fst acc) \<inter> set (map fst es) = {}"
  shows "acl_lines d (map user_line es) = Inr (d\<lparr>USERS := Some (acc @ map reparsed es)\<rparr>)"
  using assms
proof (induction es arbitrary: d acc)
  case Nil
  then show ?case by simp
next
  case (Cons ne es)
  let ?d = "d\<lparr>USERS := Some (acc @ [reparsed ne])\<rparr>"
  from Cons.prems have fresh: "fst ne \<notin> set (map fst acc)" by auto
  have step: "acl_line d (user_line ne) = Inr ?d"
    using user_line_parse [of ne d acc] Cons.prems(1,3) update_fresh [OF fresh, of "snd (reparsed ne)"]
    by (simp add: reparsed_def)
  have "acl_lines ?d (map user_line es) = Inr (?d\<lparr>USERS := Some ((acc @ [reparsed ne]) @ map reparsed es)\<rparr>)"
    using Cons.prems by (intro Cons.IH) (auto simp add: reparsed_def)
  with step show ?case by simp
qed

lemma acl_lines_groups:
  assumes "list_all entry_ok es" and "distinct (map fst es)" and "GROUPS d = Some acc"
    and "set (map fst acc) \<inter> set (map fst es) = {}"
  shows "acl_lines d (map group_line es) = Inr (d\<lparr>GROUPS := Some (acc @ map reparsed es)\<rparr>)"
  using assms
proof (induction es arbitrary: d acc)
  case Nil
  then show ?case by simp
next
  case (Cons ne es)
  let ?d = "d\<lparr>GROUPS := Some (acc @ [reparsed ne])\<rparr>"
  from Cons.prems have fresh: "fst ne \<notin> set (map fst acc)" by auto
  have step: "acl_line d (group_line ne) = Inr ?d"
    using group_line_parse [of ne d acc] Cons.prems(1,3) update_fresh [OF fresh, of "snd (reparsed ne)"]
    by (simp add: reparsed_def)
  have "acl_lines ?d (map group_line es) = Inr (?d\<lparr>GROUPS := Some ((acc @ [reparsed ne]) @ map reparsed es)\<rparr>)"
    using Cons.prems by (intro Cons.IH) (auto simp add: reparsed_def)
  with step show ?case by simp
qed



lemma entry_ok_one_line:
  "list_all entry_ok es \<Longrightarrow> entries_one_line es"
  by (auto simp add: list_all_iff entries_one_line_def entry_ok_def plain_def)

lemma triad_lines_parse:
  assumes "plain u" and "plain g" and "plain ot" and "plain k"
  shows "acl_lines d [''user::'' @ u, ''group::'' @ g, ''other::'' @ ot, ''mask::'' @ k]
           = Inr (d\<lparr>USERP := Some u, GROUPP := Some g, OTHERP := Some ot, MASK := Some k\<rparr>)"
proof -
  from assms have c: "CHR '':'' \<notin> set u" "CHR '':'' \<notin> set g" "CHR '':'' \<notin> set ot" "CHR '':'' \<notin> set k"
    by (simp_all add: plain_def)
  have h: "\<not> header_line (''user::'' @ u)" "\<not> header_line (''group::'' @ g)"
    "\<not> header_line (''other::'' @ ot)" "\<not> header_line (''mask::'' @ k)"
    using not_header_triad [of "''user''" u] not_header_triad [of "''group''" g]
      not_header_triad [of "''other''" ot] not_header_triad [of "''mask''" k] c
    by (simp_all add: suffix_Cons)
  have o: "\<not> sublist ''other::'' (''mask::'' @ k)"
    using sublist_without_char [of "CHR '':''" "''other::''" k] c(4)
    by (simp add: sublist_Cons_right)
  have "acl_line d (''user::'' @ u) = Inr (d\<lparr>USERP := Some u\<rparr>)"
    using triad_user_line [OF h(1)] c(1) by (simp add: first_field_plain)
  moreover have "acl_line (d\<lparr>USERP := Some u\<rparr>) (''group::'' @ g)
      = Inr (d\<lparr>USERP := Some u, GROUPP := Some g\<rparr>)"
    using triad_group_line [OF h(2)] c(2) by (simp add: first_field_plain)
  moreover have "acl_line (d\<lparr>USERP := Some u, GROUPP := Some g\<rparr>) (''other::'' @ ot)
      = Inr (d\<lparr>USERP := Some u, GROUPP := Some g, OTHERP := Some ot\<rparr>)"
    using triad_other_line [OF h(3)] c(3) by (simp add: first_field_plain)
  moreover have "acl_line (d\<lparr>USERP := Some u, GROUPP := Some g, OTHERP := Some ot\<rparr>) (''mask::'' @ k)
      = Inr (d\<lparr>USERP := Some u, GROUPP := Some g, OTHERP := Some ot, MASK := Some k\<rparr>)"
    using mask_line [OF h(4) o] c(4) by (simp add: first_field_plain)
  ultimately show ?thesis by simp
qed


section \<open>Properties of the serializer\<close>

text \<open>
  Claim C1, as amended.  For a record without \<open>MASK\<close> whose strings hold no line boundary
  (and a fallback that supplies the triads the record lacks), \<open>write_acl_file\<close> succeeds and
  the text has the line \<open>mask::rwxc\<close> if and only if the record has both the \<open>USERS\<close> and the
  \<open>GROUPS\<close> dictionary, empty or not.
\<close>

theorem write_acl_file_default_mask:
  assumes "f \<noteq> []" and "m \<noteq> empty_dict" and "d \<noteq> empty_dict"
    and "triad USERP m d = Inr u" and "triad GROUPP m d = Inr g" and "triad OTHERP m d = Inr ot"
    and "one_line u" and "one_line g" and "one_line ot" and "named_one_line m"
    and "MASK m = None"
  shows "\<exists>out. write_acl_file (Some f) (Some m) (Some d) = Inr (Some out)
           \<and> (''mask::rwxc'' \<in> set (splitlines out) \<longleftrightarrow> USERS m \<noteq> None \<and> GROUPS m \<noteq> None)"
proof -
  let ?ls = "[''user::'' @ u, ''group::'' @ g, ''other::'' @ ot] @ mask_lines m @ named_lines m"
  let ?out = "concat (map (\<lambda>l. l @ NL) ?ls)"
  have w: "write_acl_file (Some f) (Some m) (Some d) = Inr (Some ?out)"
    using assms(1-6) by (rule write_acl_file_lines)
  have "\<forall>l \<in> set ?ls. one_line l"
    using assms(7-11) named_lines_one_line [of m] mask_lines_one_line [of m]
    by (auto simp add: one_line_Cons)
  then have s: "splitlines ?out = ?ls" by (rule splitlines_unlines)
  have "''mask::rwxc'' \<in> set ?ls \<longleftrightarrow> ''mask::rwxc'' \<in> set (mask_lines m)"
    using named_lines_not_mask [of m] by auto
  also have "\<dots> \<longleftrightarrow> USERS m \<noteq> None \<and> GROUPS m \<noteq> None"
    using assms(11) by (simp add: mask_lines_def)
  finally show ?thesis using w s by simp
qed

text \<open>A record with one named user and an empty \<open>GROUPS\<close> dictionary; two triads come from the fallback.\<close>

theorem write_acl_file_default_mask_witness:
  "\<exists>out. write_acl_file (Some ''/tmp/acl'')
            (Some (empty_dict\<lparr>USERP := Some ''rwxc'', USERS := Some [(''bob'', \<lparr>PERMS = ''rwx-'', EFFECTIVE = None\<rparr>)],
                     GROUPS := Some []\<rparr>))
            (Some (empty_dict\<lparr>USERP := Some ''rwx-'', GROUPP := Some ''r-x-'', OTHERP := Some ''----''\<rparr>))
          = Inr (Some out)
        \<and> ''mask::rwxc'' \<in> set (splitlines out)"
  using write_acl_file_default_mask [of "''/tmp/acl''"
      "empty_dict\<lparr>USERP := Some ''rwxc'', USERS := Some [(''bob'', \<lparr>PERMS = ''rwx-'', EFFECTIVE = None\<rparr>)],
                     GROUPS := Some []\<rparr>"
      "empty_dict\<lparr>USERP := Some ''rwx-'', GROUPP := Some ''r-x-'', OTHERP := Some ''----''\<rparr>"
      "''rwxc''" "''r-x-''" "''----''"]
  by (simp add: empty_dict_def triad_def one_line_def named_one_line_def entries_one_line_def entries_of_def)

text \<open>
  Claim C1 as stated fails in both directions.  The record that the parser builds for a file
  without named entries has two empty dictionaries, and \<open>mask::rwxc\<close> is written for it.  A
  record with a named user and no \<open>GROUPS\<close> dictionary gets no mask line.
\<close>

theorem write_acl_file_default_mask_counterexample:
  "write_acl_file (Some ''/tmp/acl'')
      (Some \<lparr>FQPN = Some ''/data/acl/a'', DIRNAME = Some ''/data/acl'', OWNER = Some ''alice'',
         GROUP = Some ''staff'', USERP = Some ''rwxc'', GROUPP = Some ''r-x-'', OTHERP = Some ''----'',
         MASK = None, USERS = Some [], GROUPS = Some []\<rparr>)
      (Some \<lparr>FQPN = Some ''/data/acl/a'', DIRNAME = Some ''/data/acl'', OWNER = Some ''alice'',
         GROUP = Some ''staff'', USERP = Some ''rwxc'', GROUPP = Some ''r-x-'', OTHERP = Some ''----'',
         MASK = None, USERS = Some [], GROUPS = Some []\<rparr>)
    = Inr (Some (''user::rwxc'' @ NL @ ''group::r-x-'' @ NL @ ''other::----'' @ NL @ ''mask::rwxc'' @ NL))
   \<and> ''mask::rwxc'' \<in> set (splitlines (''user::rwxc'' @ NL @ ''group::r-x-'' @ NL @ ''other::----'' @ NL @ ''mask::rwxc'' @ NL))
   \<and> write_acl_file (Some ''/tmp/acl'')
      (Some \<lparr>FQPN = None, DIRNAME = None, OWNER = None, GROUP = None,
         USERP = Some ''rwxc'', GROUPP = Some ''r-x-'', OTHERP = Some ''----'',
         MASK = None, USERS = Some [(''bob'', \<lparr>PERMS = ''rwx-'', EFFECTIVE = None\<rparr>)], GROUPS = None\<rparr>)
      (Some \<lparr>FQPN = Some ''/data/acl/a'', DIRNAME = Some ''/data/acl'', OWNER = Some ''alice'',
         GROUP = Some ''staff'', USERP = Some ''rwxc'', GROUPP = Some ''r-x-'', OTHERP = Some ''----'',
         MASK = None, USERS = Some [], GROUPS = Some []\<rparr>)
    = Inr (Some (''user::rwxc'' @ NL @ ''group::r-x-'' @ NL @ ''other::----'' @ NL @ ''user:bob:rwx-'' @ NL))
   \<and> ''mask::rwxc'' \<notin> set (splitlines (''user::rwxc'' @ NL @ ''group::r-x-'' @ NL @ ''other::----'' @ NL @ ''user:bob:rwx-'' @ NL))"
  by (simp add: write_acl_file_def falsy_def empty_dict_def triad_def mask_text_def users_text_def groups_text_def)

text \<open>
  Claim C4, as amended.  Let the record hold its three triads and a mask, all plain, and let
  its named entries satisfy \<open>entry_ok\<close> with distinct names; the fallback is any non-empty
  dictionary.  Then \<open>write_acl_file\<close> succeeds, \<open>get_acl\<close> succeeds on the text, and the
  parsed dictionary has the same triads and mask and the same named users and groups, in
  the same order and with the same permissions; each effective field is \<open>????\<close>.
\<close>

theorem write_then_get_acl:
  assumes "f \<noteq> []" and "d \<noteq> empty_dict"
    and "USERP m = Some u" and "GROUPP m = Some g" and "OTHERP m = Some ot" and "MASK m = Some k"
    and "plain u" and "plain g" and "plain ot" and "plain k"
    and "us = entries_of (USERS m)" and "gs = entries_of (GROUPS m)"
    and "list_all entry_ok us" and "list_all entry_ok gs"
    and "distinct (map fst us)" and "distinct (map fst gs)"
  shows "\<exists>out p. write_acl_file (Some f) (Some m) (Some d) = Inr (Some out)
           \<and> get_acl self (0, out, err) = Inr (self\<lparr>acls := Dict p\<rparr>)
           \<and> USERP p = Some u \<and> GROUPP p = Some g \<and> OTHERP p = Some ot \<and> MASK p = Some k
           \<and> USERS p = Some (map reparsed us) \<and> GROUPS p = Some (map reparsed gs)"
proof -
  let ?t = "[''user::'' @ u, ''group::'' @ g, ''other::'' @ ot, ''mask::'' @ k]"
  let ?ls = "?t @ map user_line us @ map group_line gs"
  let ?out = "concat (map (\<lambda>l. l @ NL) ?ls)"
  let ?d0 = "empty_dict\<lparr>GROUPS := Some [], USERS := Some [],
                FQPN := Some (filename self), DIRNAME := Some (dirname self)\<rparr>"
  let ?d1 = "?d0\<lparr>USERP := Some u, GROUPP := Some g, OTHERP := Some ot, MASK := Some k\<rparr>"
  let ?d2 = "?d1\<lparr>USERS := Some ([] @ map reparsed us)\<rparr>"
  let ?d3 = "?d2\<lparr>GROUPS := Some ([] @ map reparsed gs)\<rparr>"
  from assms(3) have ne: "m \<noteq> empty_dict" by (auto simp add: empty_dict_def)
  have tr: "triad USERP m d = Inr u" "triad GROUPP m d = Inr g" "triad OTHERP m d = Inr ot"
    using assms(3-5) by (simp_all add: triad_def)
  have ml: "mask_lines m = [''mask::'' @ k]" "named_lines m = map user_line us @ map group_line gs"
    using assms(6,11,12) by (simp_all add: mask_lines_def named_lines_def)
  have w: "write_acl_file (Some f) (Some m) (Some d) = Inr (Some ?out)"
    using write_acl_file_lines [OF assms(1) ne assms(2) tr] ml by simp
  have nm: "named_one_line m"
    using assms(11-14) by (simp add: named_one_line_def entry_ok_one_line)
  have "\<forall>l \<in> set ?ls. one_line l"
    using assms(7-10) named_lines_one_line [OF nm] ml(2)
    by (auto simp add: one_line_Cons plain_def)
  then have sl: "splitlines ?out = ?ls" by (rule splitlines_unlines)
  have p1: "acl_lines ?d0 ?t = Inr ?d1"
    using assms(7-10) by (rule triad_lines_parse)
  have p2: "acl_lines ?d1 (map user_line us) = Inr ?d2"
    using assms(13,15) by (intro acl_lines_users) simp_all
  have p3: "acl_lines ?d2 (map group_line gs) = Inr ?d3"
    using assms(14,16) by (intro acl_lines_groups) simp_all
  have "acl_lines ?d0 ?ls = Inr ?d3"
    using p1 p2 p3 by (simp only: acl_lines_append sum.case)
  then have "get_acl self (0, ?out, err) = Inr (self\<lparr>acls := Dict ?d3\<rparr>)"
    using sl by (simp add: get_acl_def)
  with w show ?thesis by (intro exI [of _ ?out] exI [of _ ?d3]) simp
qed

theorem write_then_get_acl_witness:
  "\<exists>out p. write_acl_file (Some ''/tmp/acl'')
        (Some (empty_dict\<lparr>USERP := Some ''rwxc'', GROUPP := Some ''r-x-'', OTHERP := Some ''----'',
                 MASK := Some ''rwx-'',
                 USERS := Some [(''bob'', \<lparr>PERMS = ''rwx-'', EFFECTIVE = Some ''r-x-''\<rparr>)],
                 GROUPS := Some [(''devteam'', \<lparr>PERMS = ''r-x-'', EFFECTIVE = None\<rparr>)]\<rparr>))
        (Some (empty_dict\<lparr>USERP := Some ''----''\<rparr>))
      = Inr (Some out)
    \<and> get_acl \<lparr>filename = ''/data/acl/a'', dirname = ''/data/acl'', acls = Unset, default_acls = Unset\<rparr>
          (0, out, [])
      = Inr \<lparr>filename = ''/data/acl/a'', dirname = ''/data/acl'', acls = Dict p, default_acls = Unset\<rparr>
    \<and> USERP p = Some ''rwxc'' \<and> GROUPP p = Some ''r-x-'' \<and> OTHERP p = Some ''----''
    \<and> MASK p = Some ''rwx-''
    \<and> USERS p = Some [(''bob'', \<lparr>PERMS = ''rwx-'', EFFECTIVE = Some ''????''\<rparr>)]
    \<and> GROUPS p = Some [(''devteam'', \<lparr>PERMS = ''r-x-'', EFFECTIVE = Some ''????''\<rparr>)]"
  using write_then_get_acl [of "''/tmp/acl''" "empty_dict\<lparr>USERP := Some ''----''\<rparr>"
      "empty_dict\<lparr>USERP := Some ''rwxc'', GROUPP := Some ''r-x-'', OTHERP := Some ''----'',
                 MASK := Some ''rwx-'',
                 USERS := Some [(''bob'', \<lparr>PERMS = ''rwx-'', EFFECTIVE = Some ''r-x-''\<rparr>)],
                 GROUPS := Some [(''devteam'', \<lparr>PERMS = ''r-x-'', EFFECTIVE = None\<rparr>)]\<rparr>"
      "''rwxc''" "''r-x-''" "''----''" "''rwx-''"
      "[(''bob'', \<lparr>PERMS = ''rwx-'', EFFECTIVE = Some ''r-x-''\<rparr>)]"
      "[(''devteam'', \<lparr>PERMS = ''r-x-'', EFFECTIVE = None\<rparr>)]"
      "\<lparr>filename = ''/data/acl/a'', dirname = ''/data/acl'', acls = Unset, default_acls = Unset\<rparr>" "[]"]
  by (simp add: empty_dict_def plain_def one_line_def entry_ok_def entries_of_def reparsed_def
        sublist_Cons_right suffix_Cons)

text \<open>
  Claim C4 as stated fails.  First: a record without \<open>MASK\<close> that has both dictionaries is
  written with \<open>mask::rwxc\<close>, so the parsed record has a mask.  Second: a record without
  \<open>USERP\<close> is written with the triad of the fallback, and a permission string of five
  characters is read back cut to four.  Third: on the line of a user named \<open>effective\<close> the
  parser looks for a fourth field and raises \<open>IndexError\<close>.
\<close>

theorem write_then_get_acl_counterexample:
  "write_acl_file (Some ''/tmp/acl'')
      (Some (empty_dict\<lparr>USERP := Some ''rwxc'', GROUPP := Some ''r-x-'', OTHERP := Some ''----'',
               USERS := Some [], GROUPS := Some []\<rparr>))
      (Some (empty_dict\<lparr>USERP := Some ''rwxc''\<rparr>))
    = Inr (Some (''user::rwxc'' @ NL @ ''group::r-x-'' @ NL @ ''other::----'' @ NL @ ''mask::rwxc'' @ NL))
   \<and> get_acl \<lparr>filename = ''/data/acl/a'', dirname = ''/data/acl'', acls = Unset, default_acls = Unset\<rparr>
        (0, ''user::rwxc'' @ NL @ ''group::r-x-'' @ NL @ ''other::----'' @ NL @ ''mask::rwxc'' @ NL, [])
    = Inr \<lparr>filename = ''/data/acl/a'', dirname = ''/data/acl'',
           acls = Dict (empty_dict\<lparr>FQPN := Some ''/data/acl/a'', DIRNAME := Some ''/data/acl'',
                    USERP := Some ''rwxc'', GROUPP := Some ''r-x-'', OTHERP := Some ''----'',
                    MASK := Some ''rwxc'', USERS := Some [], GROUPS := Some []\<rparr>),
           default_acls = Unset\<rparr>
   \<and> write_acl_file (Some ''/tmp/acl'')
      (Some (empty_dict\<lparr>GROUPP := Some ''r-x-'', OTHERP := Some ''----'', MASK := Some ''rwx-'',
               USERS := Some [], GROUPS := Some [(''devteam'', \<lparr>PERMS = ''rwxc+'', EFFECTIVE = None\<rparr>)]\<rparr>))
      (Some (empty_dict\<lparr>USERP := Some ''r---''\<rparr>))
    = Inr (Some (''user::r---'' @ NL @ ''group::r-x-'' @ NL @ ''other::----'' @ NL @ ''mask::rwx-'' @ NL
                 @ ''group:devteam:rwxc+'' @ NL))
   \<and> get_acl \<lparr>filename = ''/data/acl/a'', dirname = ''/data/acl'', acls = Unset, default_acls = Unset\<rparr>
        (0, ''user::r---'' @ NL @ ''group::r-x-'' @ NL @ ''other::----'' @ NL @ ''mask::rwx-'' @ NL
                 @ ''group:devteam:rwxc+'' @ NL, [])
    = Inr \<lparr>filename = ''/data/acl/a'', dirname = ''/data/acl'',
           acls = Dict (empty_dict\<lparr>FQPN := Some ''/data/acl/a'', DIRNAME := Some ''/data/acl'',
                    USERP := Some ''r---'', GROUPP := Some ''r-x-'', OTHERP := Some ''----'',
                    MASK := Some ''rwx-'', USERS := Some [],
                    GROUPS := Some [(''devteam'', \<lparr>PERMS = ''rwxc'', EFFECTIVE = Some ''????''\<rparr>)]\<rparr>),
           default_acls = Unset\<rparr>
   \<and> write_acl_file (Some ''/tmp/acl'')
      (Some (empty_dict\<lparr>USERP := Some ''rwxc'', GROUPP := Some ''r-x-'', OTHERP := Some ''----'',
               MASK := Some ''rwx-'',
               USERS := Some [(''effective'', \<lparr>PERMS = ''rwx-'', EFFECTIVE = None\<rparr>)], GROUPS := Some []\<rparr>))
      (Some (empty_dict\<lparr>USERP := Some ''rwxc''\<rparr>))
    = Inr (Some (''user::rwxc'' @ NL @ ''group::r-x-'' @ NL @ ''other::----'' @ NL @ ''mask::rwx-'' @ NL
                 @ ''user:effective:rwx-'' @ NL))
   \<and> get_acl \<lparr>filename = ''/data/acl/a'', dirname = ''/data/acl'', acls = Unset, default_acls = Unset\<rparr>
        (0, ''user::rwxc'' @ NL @ ''group::r-x-'' @ NL @ ''other::----'' @ NL @ ''mask::rwx-'' @ NL
                 @ ''user:effective:rwx-'' @ NL, [])
    = Inl IndexError"
  by (simp add: write_acl_file_def falsy_def empty_dict_def triad_def mask_text_def users_text_def
        groups_text_def get_acl_def acl_line_def named_entry_def py_index_def sublist_Cons_right)

end
